theory Spec2Isabelle
  imports Complex_Main
begin

section \<open>Conventions of the embedding\<close>

text \<open>
  The page script \<^verbatim>\<open>script.js\<close> is embedded function by function. JavaScript numbers are
  modelled as real numbers: the arithmetic of the script is kept, the rounding of IEEE
  doubles is not. A method that can throw returns an \<open>outcome\<close>: \<open>Return s\<close> is the state
  after a normal return, \<open>Throw e s\<close> is the exception \<open>e\<close> together with the state the
  page was left in when it was thrown (JavaScript does not undo the writes made before a
  throw).
\<close>

datatype error = TypeError | SyntaxError | SecurityError | QuotaExceededError
  | InvalidCharacterError

datatype 's outcome = Return 's | Throw error 's

text \<open>What \<^verbatim>\<open>document.querySelector\<close> can do with a selector string: reject it, find
  nothing (\<^verbatim>\<open>null\<close>), or return the first matching element.\<close>

datatype 'e query = InvalidSelector | NoMatch | Match 'e

section \<open>Smooth scroll (\<^verbatim>\<open>easeInOutCubic\<close>, \<^verbatim>\<open>smoothScrollTo\<close>)\<close>

text \<open>
  \<^verbatim>\<open>function easeInOutCubic(t, b, c, d) {
    t /= d / 2;
    if (t < 1) return c / 2 * t * t * t + b;
    t -= 2;
    return c / 2 * (t * t * t + 2) + b; }\<close>
\<close>

definition easeInOutCubic :: "real \<Rightarrow> real \<Rightarrow> real \<Rightarrow> real \<Rightarrow> real" where
  "easeInOutCubic t b c d =
     (let t1 = t / (d / 2) in
      if t1 < 1 then c / 2 * t1 * t1 * t1 + b
      else (let t2 = t1 - 2 in c / 2 * (t2 * t2 * t2 + 2) + b))"

text \<open>The closure created by one call of \<^verbatim>\<open>smoothScrollTo\<close>: the constants it captured and
  its mutable variable \<^verbatim>\<open>start\<close> (\<open>None\<close> is \<^verbatim>\<open>null\<close>).\<close>

record scroll_animation =
  startPosition :: real
  distance :: real
  start :: "real option"

text \<open>The window: the current scroll offset, the largest offset the document allows
  (\<^verbatim>\<open>window.scrollTo\<close> clamps to it), the arguments of every \<^verbatim>\<open>scrollTo\<close> call so far (latest
  last) and the callbacks waiting for the next animation frame.\<close>

record window =
  pageYOffset :: real
  scrollMax :: real
  scrollTo_calls :: "real list"
  frame_callbacks :: "scroll_animation list"

definition duration :: real where
  "duration = 1000"

definition scrollTo :: "real \<Rightarrow> window \<Rightarrow> window" where
  "scrollTo y w = w\<lparr>pageYOffset := max 0 (min y (scrollMax w)),
                    scrollTo_calls := scrollTo_calls w @ [y]\<rparr>"

definition requestAnimationFrame :: "scroll_animation \<Rightarrow> window \<Rightarrow> window" where
  "requestAnimationFrame a w = w\<lparr>frame_callbacks := frame_callbacks w @ [a]\<rparr>"

text \<open>The inner function \<^verbatim>\<open>animation(currentTime)\<close> of \<^verbatim>\<open>smoothScrollTo\<close>.\<close>

definition animation :: "real \<Rightarrow> scroll_animation \<Rightarrow> window \<Rightarrow> window" where
  "animation currentTime a w =
     (let start' = (case start a of None \<Rightarrow> currentTime | Some s \<Rightarrow> s);
          timeElapsed = currentTime - start';
          run = easeInOutCubic timeElapsed (startPosition a) (distance a) duration;
          w' = scrollTo run w
      in if timeElapsed < duration
         then requestAnimationFrame (a\<lparr>start := Some start'\<rparr>) w'
         else w')"

text \<open>
  \<^verbatim>\<open>smoothScrollTo(targetId, offset = 80)\<close>. The document is given by its
  \<^verbatim>\<open>querySelector\<close>, which yields the \<^verbatim>\<open>offsetTop\<close> of the element found.
\<close>

definition smoothScrollTo ::
  "(string \<Rightarrow> int query) \<Rightarrow> string \<Rightarrow> real \<Rightarrow> window \<Rightarrow> window outcome" where
  "smoothScrollTo querySelector targetId offset w =
     (case querySelector targetId of
        InvalidSelector \<Rightarrow> Throw SyntaxError w
      | NoMatch \<Rightarrow> Return w
      | Match offsetTop \<Rightarrow>
          (let targetPosition = real_of_int offsetTop - offset;
               startPosition = pageYOffset w;
               distance = targetPosition - startPosition
           in Return (requestAnimationFrame
                \<lparr>startPosition = startPosition, distance = distance, start = None\<rparr> w)))"

text \<open>One animation frame of the browser at time \<open>t\<close>: the callbacks requested so far are
  taken off the list and run in order; what they request waits for the next frame.\<close>

definition animation_frame :: "real \<Rightarrow> window \<Rightarrow> window" where
  "animation_frame t w =
     fold (animation t) (frame_callbacks w) (w\<lparr>frame_callbacks := []\<rparr>)"

fun animation_frames :: "real list \<Rightarrow> window \<Rightarrow> window" where
  "animation_frames [] w = w"
| "animation_frames (t # ts) w = animation_frames ts (animation_frame t w)"

text \<open>A page for the examples: one section \<^verbatim>\<open>#features\<close> at \<^verbatim>\<open>offsetTop = 1080\<close>, the
  window at the top of a document that scrolls as far as 5000 pixels.\<close>

definition features_page :: "string \<Rightarrow> int query" where
  "features_page sel = (if sel = ''#features'' then Match 1080 else NoMatch)"

definition top_window :: window where
  "top_window = \<lparr>pageYOffset = 0, scrollMax = 5000, scrollTo_calls = [],
                  frame_callbacks = []\<rparr>"

definition scrolling_to_features :: window where
  "scrolling_to_features =
     (case smoothScrollTo features_page ''#features'' 80 top_window of
        Return w \<Rightarrow> w | Throw e w \<Rightarrow> w)"

subsection \<open>Facts about the smooth scroll\<close>

lemma easeInOutCubic_at_duration: "easeInOutCubic duration b c duration = b + c"
  by (simp add: easeInOutCubic_def duration_def)

lemma easeInOutCubic_past_duration:
  assumes "duration < t"
  shows "easeInOutCubic t b c duration = b + c + c / 2 * ((t - duration) / 500) ^ 3"
proof -
  have late: "\<not> t / 500 < 1"
    using assms by (simp add: duration_def)
  have "easeInOutCubic t b c duration =
      c / 2 * ((t / 500 - 2) * (t / 500 - 2) * (t / 500 - 2) + 2) + b"
    using late by (simp add: easeInOutCubic_def duration_def Let_def)
  also have "t / 500 - 2 = (t - duration) / 500"
    by (simp add: duration_def field_simps)
  finally show ?thesis
    by (simp add: power3_eq_cube algebra_simps)
qed

text \<open>What a frame writes once the animation has started: the target when it arrives
  exactly \<open>duration\<close> after the first frame, and a position past the target (for a
  distance other than 0) when it arrives later. In both cases no further frame is
  requested.\<close>

lemma animation_frame_on_time:
  assumes "start a = Some t0" and "t - t0 = duration"
  shows "animation t a w = scrollTo (startPosition a + distance a) w"
  using assms easeInOutCubic_at_duration [of "startPosition a" "distance a"]
  by (simp add: animation_def Let_def)

lemma animation_frame_late:
  assumes "start a = Some t0" and "duration < t - t0"
  shows "animation t a w =
     scrollTo (startPosition a + distance a
               + distance a / 2 * ((t - t0 - duration) / 500) ^ 3) w"
  using assms easeInOutCubic_past_duration [of "t - t0" "startPosition a" "distance a"]
  by (simp add: animation_def Let_def)

lemma smoothScrollTo_missing_target:
  "querySelector targetId = NoMatch \<Longrightarrow> smoothScrollTo querySelector targetId offset w = Return w"
  by (simp add: smoothScrollTo_def)

lemma scrolling_to_features_eq:
  "scrolling_to_features = top_window\<lparr>frame_callbacks :=
     [\<lparr>startPosition = 0, distance = 1000, start = None\<rparr>]\<rparr>"
  by (simp add: scrolling_to_features_def smoothScrollTo_def features_page_def
      top_window_def requestAnimationFrame_def)

text \<open>When a frame arrives exactly 1000 ms after the first one, the last write is the
  target offset \<open>1080 - 80\<close>.\<close>

lemma smooth_scroll_exact_frame:
  "animation_frames [0, 500, 1000] scrolling_to_features =
     \<lparr>pageYOffset = 1000, scrollMax = 5000, scrollTo_calls = [0, 500, 1000],
      frame_callbacks = []\<rparr>"
  by (simp add: scrolling_to_features_eq top_window_def animation_frame_def animation_def
      scrollTo_def requestAnimationFrame_def easeInOutCubic_def duration_def Let_def)

text \<open>
  C1: the scroll position written on the first frame whose elapsed time is at least
  1000 ms is claimed to be exactly the target offset. The elapsed time is not capped
  at the duration before it is given to the easing curve, so a frame that arrives later
  than 1000 ms after the first one writes a position past the target. Here the target
  offset is \<open>1080 - 80 = 1000\<close>; frames at 0 ms, 500 ms and 1125 ms end the animation
  (no callback is left) with the last write and the scroll offset at \<open>1007.8125\<close>.
\<close>

theorem smooth_scroll_overshoots_late_frame:
  "animation_frames [0, 500, 1125] scrolling_to_features =
     \<lparr>pageYOffset = 1007.8125, scrollMax = 5000, scrollTo_calls = [0, 500, 1007.8125],
      frame_callbacks = []\<rparr>"
  by (simp add: scrolling_to_features_eq top_window_def animation_frame_def animation_def
      scrollTo_def requestAnimationFrame_def easeInOutCubic_def duration_def Let_def)

section \<open>Theme management (\<^verbatim>\<open>class ThemeManager\<close>)\<close>

text \<open>The theme toggle button \<^verbatim>\<open>#themeToggle\<close>: missing, present without an \<^verbatim>\<open><i>\<close> icon, or
  present with an icon of the given \<^verbatim>\<open>className\<close>.\<close>

datatype theme_toggle = NoToggle | ToggleWithoutIcon | ToggleIcon string

text \<open>
  The state the theme manager reads and writes: its own field \<^verbatim>\<open>this.theme\<close>, the
  \<^verbatim>\<open>data-theme\<close> attribute of the document element, the contents of \<^verbatim>\<open>localStorage\<close> and
  whether its \<^verbatim>\<open>getItem\<close> and \<^verbatim>\<open>setItem\<close> throw (storage blocked or full), the toggle
  button with the number of click listeners bound to it, the inline \<^verbatim>\<open>transition\<close> style
  of the body and the number of pending 300 ms timers that clear it. Before the
  constructor has run, \<open>theme\<close> holds no meaningful value: the constructor overwrites
  it before anything reads it.
\<close>

record theme_page =
  theme :: string
  data_theme :: "string option"
  localStorage :: "string \<Rightarrow> string option"
  getItem_throws :: bool
  setItem_throws :: bool
  themeToggle :: theme_toggle
  toggle_listeners :: nat
  body_transition :: string
  transition_timers :: nat

text \<open>
  \<^verbatim>\<open>applyTheme(theme) {
    document.documentElement.setAttribute('data-theme', theme);
    this.theme = theme;
    localStorage.setItem('aureon-theme', theme);
    const themeToggle = document.getElementById('themeToggle');
    if (themeToggle) { const icon = themeToggle.querySelector('i');
      if (icon) { icon.className = theme === 'dark' ? 'fas fa-sun' : 'fas fa-moon'; } } }\<close>
\<close>

definition applyTheme :: "string \<Rightarrow> theme_page \<Rightarrow> theme_page outcome" where
  "applyTheme th p =
     (let p1 = p\<lparr>data_theme := Some th\<rparr>;
          p2 = p1\<lparr>theme := th\<rparr>
      in if setItem_throws p2 then Throw QuotaExceededError p2
         else (let p3 = p2\<lparr>localStorage := (localStorage p2)(''aureon-theme'' \<mapsto> th)\<rparr>
               in Return (case themeToggle p3 of
                    ToggleIcon c \<Rightarrow>
                      p3\<lparr>themeToggle :=
                           ToggleIcon (if th = ''dark'' then ''fas fa-sun'' else ''fas fa-moon'')\<rparr>
                  | _ \<Rightarrow> p3)))"

definition ThemeManager_bindEvents :: "theme_page \<Rightarrow> theme_page" where
  "ThemeManager_bindEvents p =
     (case themeToggle p of
        NoToggle \<Rightarrow> p
      | _ \<Rightarrow> p\<lparr>toggle_listeners := Suc (toggle_listeners p)\<rparr>)"

definition ThemeManager_init :: "theme_page \<Rightarrow> theme_page outcome" where
  "ThemeManager_init p =
     (case applyTheme (theme p) p of
        Throw e p' \<Rightarrow> Throw e p'
      | Return p' \<Rightarrow> Return (ThemeManager_bindEvents p'))"

text \<open>The constructor: \<^verbatim>\<open>this.theme = localStorage.getItem('aureon-theme') || 'dark';
  this.init();\<close> The operator \<^verbatim>\<open>||\<close> takes \<^verbatim>\<open>'dark'\<close> for \<^verbatim>\<open>null\<close> and for the empty string.\<close>

definition new_ThemeManager :: "theme_page \<Rightarrow> theme_page outcome" where
  "new_ThemeManager p =
     (if getItem_throws p then Throw SecurityError p
      else ThemeManager_init
             (p\<lparr>theme := (case localStorage p ''aureon-theme'' of
                              None \<Rightarrow> ''dark''
                            | Some v \<Rightarrow> if v = [] then ''dark'' else v)\<rparr>))"

text \<open>
  \<^verbatim>\<open>toggle() {
    const newTheme = this.theme === 'dark' ? 'light' : 'dark';
    this.applyTheme(newTheme);
    document.body.style.transition = 'background-color 0.3s ease, color 0.3s ease';
    setTimeout(() => { document.body.style.transition = ''; }, 300); }\<close>
\<close>

definition toggle :: "theme_page \<Rightarrow> theme_page outcome" where
  "toggle p =
     (let newTheme = (if theme p = ''dark'' then ''light'' else ''dark'')
      in case applyTheme newTheme p of
           Throw e p' \<Rightarrow> Throw e p'
         | Return p' \<Rightarrow>
             Return (p'\<lparr>body_transition := ''background-color 0.3s ease, color 0.3s ease'',
                        transition_timers := Suc (transition_timers p')\<rparr>))"

text \<open>One of the pending 300 ms timers of \<^verbatim>\<open>toggle\<close> runs.\<close>

definition transition_timeout :: "theme_page \<Rightarrow> theme_page" where
  "transition_timeout p =
     (if transition_timers p = 0 then p
      else p\<lparr>body_transition := [], transition_timers := transition_timers p - 1\<rparr>)"

text \<open>What happens to a constructed theme manager: calls of \<^verbatim>\<open>toggle\<close> and timers running.
  A throw ends the run.\<close>

datatype theme_event = Toggle | TransitionTimeout

fun theme_run :: "theme_event list \<Rightarrow> theme_page \<Rightarrow> theme_page outcome" where
  "theme_run [] p = Return p"
| "theme_run (Toggle # evs) p =
     (case toggle p of Throw e p' \<Rightarrow> Throw e p' | Return p' \<Rightarrow> theme_run evs p')"
| "theme_run (TransitionTimeout # evs) p = theme_run evs (transition_timeout p)"

text \<open>Pages for the examples: a first visit (nothing stored) with working storage, the same
  page with storage blocked, and a page showing the dark theme.\<close>

definition first_visit :: theme_page where
  "first_visit = \<lparr>theme = [], data_theme = None, localStorage = (\<lambda>k. None),
     getItem_throws = False, setItem_throws = False, themeToggle = ToggleIcon ''fas fa-moon'',
     toggle_listeners = 0, body_transition = [], transition_timers = 0\<rparr>"

definition blocked_storage :: theme_page where
  "blocked_storage = first_visit\<lparr>getItem_throws := True, setItem_throws := True\<rparr>"

definition dark_page :: theme_page where
  "dark_page = \<lparr>theme = ''dark'', data_theme = Some ''dark'',
     localStorage = (\<lambda>k. if k = ''aureon-theme'' then Some ''dark'' else None),
     getItem_throws = False, setItem_throws = False, themeToggle = ToggleIcon ''fas fa-sun'',
     toggle_listeners = 1, body_transition = [], transition_timers = 0\<rparr>"

subsection \<open>Facts about the theme manager\<close>

lemma applyTheme_writable:
  assumes "\<not> setItem_throws p"
  shows "\<exists>p'. applyTheme th p = Return p' \<and> theme p' = th \<and> data_theme p' = Some th
           \<and> localStorage p' ''aureon-theme'' = Some th
           \<and> setItem_throws p' = setItem_throws p \<and> getItem_throws p' = getItem_throws p"
  using assms by (cases "themeToggle p") (simp_all add: applyTheme_def Let_def)

lemma applyTheme_unwritable:
  assumes "setItem_throws p"
  shows "applyTheme th p = Throw QuotaExceededError (p\<lparr>data_theme := Some th, theme := th\<rparr>)"
  using assms by (simp add: applyTheme_def Let_def)

lemma toggle_writable:
  assumes "\<not> setItem_throws p"
  shows "\<exists>p'. toggle p = Return p'
           \<and> theme p' = (if theme p = ''dark'' then ''light'' else ''dark'')
           \<and> data_theme p' = Some (theme p')
           \<and> localStorage p' ''aureon-theme'' = Some (theme p')
           \<and> setItem_throws p' = setItem_throws p"
proof -
  let ?new = "if theme p = ''dark'' then ''light'' else ''dark''"
  obtain q where q: "applyTheme ?new p = Return q" "theme q = ?new" "data_theme q = Some ?new"
      "localStorage q ''aureon-theme'' = Some ?new" "setItem_throws q = setItem_throws p"
    using applyTheme_writable [OF assms, of ?new] by blast
  show ?thesis
    unfolding toggle_def Let_def using q by simp
qed

lemma transition_timeout_keeps_storage:
  "setItem_throws (transition_timeout p) = setItem_throws p"
  by (simp add: transition_timeout_def)

lemma theme_run_writable:
  "\<not> setItem_throws p \<Longrightarrow> \<exists>p'. theme_run evs p = Return p'"
proof (induction evs arbitrary: p)
  case Nil
  show ?case by simp
next
  case (Cons ev evs)
  show ?case
  proof (cases ev)
    case Toggle
    obtain q where q: "toggle p = Return q" "setItem_throws q = setItem_throws p"
      using toggle_writable [OF Cons.prems] by blast
    then have "\<not> setItem_throws q" using Cons.prems by simp
    from Cons.IH [OF this] q Toggle show ?thesis by simp
  next
    case TransitionTimeout
    have "\<not> setItem_throws (transition_timeout p)"
      using Cons.prems by (simp add: transition_timeout_keeps_storage)
    from Cons.IH [OF this] TransitionTimeout show ?thesis by simp
  qed
qed

lemma new_ThemeManager_available:
  assumes "\<not> getItem_throws p" "\<not> setItem_throws p"
  shows "\<exists>p'. new_ThemeManager p = Return p' \<and> \<not> setItem_throws p'
     \<and> theme p' = (case localStorage p ''aureon-theme'' of
                     None \<Rightarrow> ''dark'' | Some v \<Rightarrow> if v = [] then ''dark'' else v)"
proof -
  let ?th = "case localStorage p ''aureon-theme'' of
               None \<Rightarrow> ''dark'' | Some v \<Rightarrow> if v = [] then ''dark'' else v"
  let ?p1 = "p\<lparr>theme := ?th\<rparr>"
  have "\<not> setItem_throws ?p1" using assms by simp
  from applyTheme_writable [OF this, of ?th]
  obtain q where q: "applyTheme ?th ?p1 = Return q" "theme q = ?th" "\<not> setItem_throws q"
    using assms by auto
  have "new_ThemeManager p = Return (ThemeManager_bindEvents q)"
    using assms q by (simp add: new_ThemeManager_def ThemeManager_init_def)
  moreover have "theme (ThemeManager_bindEvents q) = theme q"
    "setItem_throws (ThemeManager_bindEvents q) = setItem_throws q"
    by (simp_all add: ThemeManager_bindEvents_def split: theme_toggle.splits)
  ultimately show ?thesis using q by simp
qed

text \<open>
  C2 as the claim states it fails: with storage blocked, the constructor throws on its
  first line and leaves the page untouched. The exception reaches the caller
  (\<^verbatim>\<open>AureonApp.init\<close>).
\<close>

theorem blocked_storage_constructor_throws:
  "new_ThemeManager blocked_storage = Throw SecurityError blocked_storage"
  by (simp add: new_ThemeManager_def blocked_storage_def)

text \<open>
  C2, amended: neither the constructor nor \<^verbatim>\<open>toggle\<close> guards its storage calls. When
  \<^verbatim>\<open>getItem\<close> and \<^verbatim>\<open>setItem\<close> do not throw, constructing the theme manager returns, with
  the theme \<^verbatim>\<open>'dark'\<close> when nothing (or the empty string) is stored, and every later
  sequence of toggles and timer callbacks returns as well. When \<^verbatim>\<open>getItem\<close> throws, the
  constructor throws and changes nothing; when only \<^verbatim>\<open>setItem\<close> throws, the constructor
  throws after it has set the document attribute.
\<close>

theorem theme_manager_storage_behaviour:
  "(\<not> getItem_throws p \<and> \<not> setItem_throws p \<longrightarrow>
      (\<exists>p'. new_ThemeManager p = Return p'
         \<and> theme p' = (case localStorage p ''aureon-theme'' of
                         None \<Rightarrow> ''dark'' | Some v \<Rightarrow> if v = [] then ''dark'' else v)
         \<and> (\<forall>evs. \<exists>p''. theme_run evs p' = Return p'')))
   \<and> (getItem_throws p \<longrightarrow> new_ThemeManager p = Throw SecurityError p)
   \<and> (\<not> getItem_throws p \<and> setItem_throws p \<longrightarrow>
      (\<exists>p'. new_ThemeManager p = Throw QuotaExceededError p' \<and> data_theme p' \<noteq> None))"
proof (intro conjI impI)
  assume ok: "\<not> getItem_throws p \<and> \<not> setItem_throws p"
  then obtain q where q: "new_ThemeManager p = Return q" "\<not> setItem_throws q"
      "theme q = (case localStorage p ''aureon-theme'' of
                    None \<Rightarrow> ''dark'' | Some v \<Rightarrow> if v = [] then ''dark'' else v)"
    using new_ThemeManager_available [of p] by blast
  have "\<forall>evs. \<exists>p''. theme_run evs q = Return p''"
    using theme_run_writable [OF q(2)] by blast
  with q show "\<exists>p'. new_ThemeManager p = Return p'
         \<and> theme p' = (case localStorage p ''aureon-theme'' of
                         None \<Rightarrow> ''dark'' | Some v \<Rightarrow> if v = [] then ''dark'' else v)
         \<and> (\<forall>evs. \<exists>p''. theme_run evs p' = Return p'')"
    by blast
next
  assume "getItem_throws p"
  then show "new_ThemeManager p = Throw SecurityError p"
    by (simp add: new_ThemeManager_def)
next
  assume "\<not> getItem_throws p \<and> setItem_throws p"
  then show "\<exists>p'. new_ThemeManager p = Throw QuotaExceededError p' \<and> data_theme p' \<noteq> None"
    by (simp add: new_ThemeManager_def ThemeManager_init_def applyTheme_unwritable)
qed

theorem theme_manager_storage_behaviour_witness:
  "(\<exists>p'. new_ThemeManager first_visit = Return p' \<and> theme p' = ''dark''
      \<and> (\<exists>p''. theme_run [Toggle, TransitionTimeout, Toggle] p' = Return p''))
   \<and> new_ThemeManager blocked_storage = Throw SecurityError blocked_storage"
proof -
  have a: "\<not> getItem_throws first_visit \<and> \<not> setItem_throws first_visit"
    by (simp add: first_visit_def)
  have b: "getItem_throws blocked_storage"
    by (simp add: blocked_storage_def)
  have c: "localStorage first_visit ''aureon-theme'' = None"
    by (simp add: first_visit_def)
  from theme_manager_storage_behaviour [of first_visit] a c
  have "\<exists>p'. new_ThemeManager first_visit = Return p' \<and> theme p' = ''dark''
      \<and> (\<forall>evs. \<exists>p''. theme_run evs p' = Return p'')"
    by simp
  then have "\<exists>p'. new_ThemeManager first_visit = Return p' \<and> theme p' = ''dark''
      \<and> (\<exists>p''. theme_run [Toggle, TransitionTimeout, Toggle] p' = Return p'')"
    by blast
  moreover have "new_ThemeManager blocked_storage = Throw SecurityError blocked_storage"
    using theme_manager_storage_behaviour [of blocked_storage] b by simp
  ultimately show ?thesis by simp
qed

text \<open>
  C3: with a store that accepts writes, every \<^verbatim>\<open>toggle\<close> returns and leaves the value in
  the store, the \<^verbatim>\<open>data-theme\<close> attribute and \<^verbatim>\<open>this.theme\<close> equal; and from a theme in
  \<open>{dark, light}\<close> a second \<^verbatim>\<open>toggle\<close> brings all three back to the theme it started from.
\<close>

theorem toggle_involution_and_sync:
  assumes "\<not> setItem_throws p"
  shows "\<exists>p1. toggle p = Return p1
           \<and> localStorage p1 ''aureon-theme'' = Some (theme p1)
           \<and> data_theme p1 = Some (theme p1)
           \<and> (theme p \<in> {''dark'', ''light''} \<longrightarrow>
                theme p1 \<in> {''dark'', ''light''} \<and> theme p1 \<noteq> theme p
                \<and> (\<exists>p2. toggle p1 = Return p2 \<and> theme p2 = theme p
                      \<and> localStorage p2 ''aureon-theme'' = Some (theme p)
                      \<and> data_theme p2 = Some (theme p)))"
proof -
  obtain p1 where p1: "toggle p = Return p1"
      "theme p1 = (if theme p = ''dark'' then ''light'' else ''dark'')"
      "data_theme p1 = Some (theme p1)" "localStorage p1 ''aureon-theme'' = Some (theme p1)"
      "setItem_throws p1 = setItem_throws p"
    using toggle_writable [OF assms] by blast
  have w1: "\<not> setItem_throws p1" using p1(5) assms by simp
  obtain p2 where p2: "toggle p1 = Return p2"
      "theme p2 = (if theme p1 = ''dark'' then ''light'' else ''dark'')"
      "data_theme p2 = Some (theme p2)" "localStorage p2 ''aureon-theme'' = Some (theme p2)"
    using toggle_writable [OF w1] by blast
  have returns: "theme p \<in> {''dark'', ''light''} \<Longrightarrow> theme p2 = theme p"
    using p1(2) p2(2) by auto
  have other: "theme p \<in> {''dark'', ''light''} \<Longrightarrow>
      theme p1 \<in> {''dark'', ''light''} \<and> theme p1 \<noteq> theme p"
    using p1(2) by auto
  show ?thesis
    using p1 p2 returns other by auto
qed

theorem toggle_involution_and_sync_witness:
  "\<exists>p1. toggle dark_page = Return p1 \<and> theme p1 = ''light''
      \<and> localStorage p1 ''aureon-theme'' = Some ''light'' \<and> data_theme p1 = Some ''light''
      \<and> (\<exists>p2. toggle p1 = Return p2 \<and> theme p2 = ''dark''
            \<and> localStorage p2 ''aureon-theme'' = Some ''dark''
            \<and> data_theme p2 = Some ''dark'')"
proof -
  have w: "\<not> setItem_throws dark_page" by (simp add: dark_page_def)
  have t: "theme dark_page = ''dark''" by (simp add: dark_page_def)
  from toggle_involution_and_sync [OF w] obtain p1 where
    p1: "toggle dark_page = Return p1"
      "localStorage p1 ''aureon-theme'' = Some (theme p1)" "data_theme p1 = Some (theme p1)"
      "theme p1 \<in> {''dark'', ''light''} \<and> theme p1 \<noteq> ''dark''
         \<and> (\<exists>p2. toggle p1 = Return p2 \<and> theme p2 = ''dark''
               \<and> localStorage p2 ''aureon-theme'' = Some ''dark''
               \<and> data_theme p2 = Some ''dark'')"
    using t by auto
  then have "theme p1 = ''light''" by auto
  with p1 show ?thesis by auto
qed

section \<open>Navigation (\<^verbatim>\<open>class NavigationManager\<close>)\<close>

text \<open>An inline \<^verbatim>\<open>animation-delay\<close> as the script assigns it: the empty string, or the
  template \<^verbatim>\<open>`${index * 0.1}s`\<close> with its number.\<close>

datatype css_time = NoTime | Seconds real

text \<open>
  A \<^verbatim>\<open>.nav-link\<close> element: its \<^verbatim>\<open>href\<close> attribute, whether its class list holds
  \<^verbatim>\<open>active\<close>, whether it lies inside \<^verbatim>\<open>#navMenu\<close>, and the values last assigned to
  \<^verbatim>\<open>style.animation\<close> and \<^verbatim>\<open>style.animationDelay\<close> (the expansion of CSS shorthands is
  not modelled).
\<close>

record nav_link =
  href :: "string option"
  link_active :: bool
  in_menu :: bool
  style_animation :: string
  style_animationDelay :: css_time

text \<open>A \<^verbatim>\<open>section[id]\<close> element with its layout box.\<close>

record page_section =
  section_id :: string
  offsetTop :: int
  offsetHeight :: int

text \<open>
  The page as the navigation manager sees it. \<open>nav\<close>, \<open>navToggle\<close> and \<open>navMenu\<close> are
  \<open>None\<close> when the element is missing (the field of the manager is \<^verbatim>\<open>null\<close>); otherwise
  they hold whether the class list has \<^verbatim>\<open>scrolled\<close> (for \<open>nav\<close>) or \<^verbatim>\<open>active\<close>. \<open>navLinks\<close>
  are the \<^verbatim>\<open>.nav-link\<close> elements and \<open>sections\<close> the \<^verbatim>\<open>section[id]\<close> elements, both in
  document order; the script never adds or removes either.
\<close>

record nav_page =
  nav :: "bool option"
  navToggle :: "bool option"
  navMenu :: "bool option"
  navLinks :: "nav_link list"
  body_overflow :: string
  sections :: "page_section list"
  scrollY :: real

text \<open>\<^verbatim>\<open>menuItems.forEach((item, index) => {
    item.style.animationDelay = `${index * 0.1}s`;
    item.style.animation = 'fadeInUp 0.3s ease forwards'; })\<close> over the links inside the
  menu; \<open>index\<close> counts the links inside the menu only.\<close>

fun animate_items :: "nat \<Rightarrow> nav_link list \<Rightarrow> nav_link list" where
  "animate_items index [] = []"
| "animate_items index (item # items) =
     (if in_menu item
      then item\<lparr>style_animationDelay := Seconds (real index * 0.1),
                 style_animation := ''fadeInUp 0.3s ease forwards''\<rparr>
           # animate_items (Suc index) items
      else item # animate_items index items)"

text \<open>\<^verbatim>\<open>menuItems.forEach(item => { item.style.animation = '';
    item.style.animationDelay = ''; })\<close>\<close>

definition reset_items :: "nav_link list \<Rightarrow> nav_link list" where
  "reset_items items =
     map (\<lambda>item. if in_menu item
                  then item\<lparr>style_animation := [], style_animationDelay := NoTime\<rparr>
                  else item) items"

text \<open>\<^verbatim>\<open>openMobileMenu\<close> and \<^verbatim>\<open>closeMobileMenu\<close> use \<^verbatim>\<open>this.navMenu\<close> and \<^verbatim>\<open>this.navToggle\<close>
  without a guard: a missing element is a \<^verbatim>\<open>TypeError\<close> at the statement that reads it.\<close>

definition openMobileMenu :: "nav_page \<Rightarrow> nav_page outcome" where
  "openMobileMenu s =
     (case navMenu s of
        None \<Rightarrow> Throw TypeError s
      | Some _ \<Rightarrow>
          (let s1 = s\<lparr>navMenu := Some True\<rparr>
           in case navToggle s1 of
                None \<Rightarrow> Throw TypeError s1
              | Some _ \<Rightarrow>
                  Return (s1\<lparr>navToggle := Some True,
                             body_overflow := ''hidden'',
                             navLinks := animate_items 0 (navLinks s1)\<rparr>)))"

definition closeMobileMenu :: "nav_page \<Rightarrow> nav_page outcome" where
  "closeMobileMenu s =
     (case navMenu s of
        None \<Rightarrow> Throw TypeError s
      | Some _ \<Rightarrow>
          (let s1 = s\<lparr>navMenu := Some False\<rparr>
           in case navToggle s1 of
                None \<Rightarrow> Throw TypeError s1
              | Some _ \<Rightarrow>
                  Return (s1\<lparr>navToggle := Some False,
                             body_overflow := [],
                             navLinks := reset_items (navLinks s1)\<rparr>)))"

definition toggleMobileMenu :: "nav_page \<Rightarrow> nav_page outcome" where
  "toggleMobileMenu s =
     (case navMenu s of
        None \<Rightarrow> Throw TypeError s
      | Some isActive \<Rightarrow> if isActive then closeMobileMenu s else openMobileMenu s)"

text \<open>The test of \<^verbatim>\<open>updateActiveNavLink\<close>:
  \<^verbatim>\<open>scrollPos >= sectionTop && scrollPos < sectionTop + sectionHeight\<close>.\<close>

definition section_matches :: "real \<Rightarrow> page_section \<Rightarrow> bool" where
  "section_matches scrollPos sec =
     (real_of_int (offsetTop sec) \<le> scrollPos
      \<and> scrollPos < real_of_int (offsetTop sec + offsetHeight sec))"

text \<open>\<^verbatim>\<open>this.navLinks.forEach(link => link.classList.remove('active'))\<close>\<close>

definition remove_active :: "nav_link list \<Rightarrow> nav_link list" where
  "remove_active links = map (\<lambda>link. link\<lparr>link_active := False\<rparr>) links"

text \<open>\<^verbatim>\<open>const activeLink = document.querySelector(`.nav-link[href="#${sectionId}"]`);
  if (activeLink) activeLink.classList.add('active');\<close> The first link in document order
  whose \<^verbatim>\<open>href\<close> is the given string gets the class. Section ids are taken to be plain
  (no quote, backslash or line break), so that the selector means this comparison.\<close>

fun add_active :: "string \<Rightarrow> nav_link list \<Rightarrow> nav_link list" where
  "add_active h [] = []"
| "add_active h (link # links) =
     (if href link = Some h then link\<lparr>link_active := True\<rparr> # links
      else link # add_active h links)"

text \<open>The body of \<^verbatim>\<open>sections.forEach(section => ...)\<close> for one section.\<close>

definition visit_section :: "real \<Rightarrow> page_section \<Rightarrow> nav_link list \<Rightarrow> nav_link list" where
  "visit_section scrollPos sec links =
     (if section_matches scrollPos sec
      then add_active (''#'' @ section_id sec) (remove_active links)
      else links)"

definition updateActiveNavLink :: "nav_page \<Rightarrow> nav_page" where
  "updateActiveNavLink s =
     (let scrollPos = scrollY s + 100
      in s\<lparr>navLinks := fold (visit_section scrollPos) (sections s) (navLinks s)\<rparr>)"

text \<open>\<^verbatim>\<open>handleScroll\<close>: the \<^verbatim>\<open>scrolled\<close> class of the bar past 100 pixels, then the active
  link.\<close>

definition handleScroll :: "nav_page \<Rightarrow> nav_page outcome" where
  "handleScroll s =
     (case nav s of
        None \<Rightarrow> Throw TypeError s
      | Some _ \<Rightarrow> Return (updateActiveNavLink (s\<lparr>nav := Some (100 < scrollY s)\<rparr>)))"

text \<open>How many links carry the active marker.\<close>

definition active_count :: "nav_link list \<Rightarrow> nat" where
  "active_count links = length (filter link_active links)"

text \<open>The page of the spec's example: sections A (top 0, height 500) and B (top 500,
  height 500), one menu link for each, nothing active, menu closed.\<close>

definition plain_link :: "string \<Rightarrow> nav_link" where
  "plain_link h = \<lparr>href = Some h, link_active = False, in_menu = True,
     style_animation = [], style_animationDelay = NoTime\<rparr>"

definition two_sections :: nav_page where
  "two_sections = \<lparr>nav = Some False, navToggle = Some False, navMenu = Some False,
     navLinks = [plain_link ''#A'', plain_link ''#B''], body_overflow = [],
     sections = [\<lparr>section_id = ''A'', offsetTop = 0, offsetHeight = 500\<rparr>,
                 \<lparr>section_id = ''B'', offsetTop = 500, offsetHeight = 500\<rparr>],
     scrollY = 0\<rparr>"

text \<open>The state after \<^verbatim>\<open>openMobileMenu\<close> and after \<^verbatim>\<open>closeMobileMenu\<close>, when \<^verbatim>\<open>#navMenu\<close> and
  \<^verbatim>\<open>#navToggle\<close> exist.\<close>

definition opened_page :: "nav_page \<Rightarrow> nav_page" where
  "opened_page s = s\<lparr>navMenu := Some True, navToggle := Some True, body_overflow := ''hidden'',
     navLinks := animate_items 0 (navLinks s)\<rparr>"

definition closed_page :: "nav_page \<Rightarrow> nav_page" where
  "closed_page s = s\<lparr>navMenu := Some False, navToggle := Some False, body_overflow := [],
     navLinks := reset_items (navLinks s)\<rparr>"

text \<open>Two more pages for the examples: the page of the two sections with the link of A
  active, and the same page with the link of B active and scrolled to 950, where the
  lookahead position 1050 lies below both sections.\<close>

definition link_A_active :: nav_page where
  "link_A_active = two_sections\<lparr>navLinks :=
     [(plain_link ''#A'')\<lparr>link_active := True\<rparr>, plain_link ''#B'']\<rparr>"

definition scrolled_past_B :: nav_page where
  "scrolled_past_B = two_sections\<lparr>navLinks :=
     [plain_link ''#A'', (plain_link ''#B'')\<lparr>link_active := True\<rparr>], scrollY := 950\<rparr>"

subsection \<open>Facts about the mobile menu\<close>

lemma animate_items_idem: "animate_items i (animate_items i items) = animate_items i items"
  by (induction i items rule: animate_items.induct) simp_all

lemma reset_items_idem: "reset_items (reset_items items) = reset_items items"
  by (induction items) (simp_all add: reset_items_def)

lemma reset_animate_items: "reset_items (animate_items i items) = reset_items items"
  by (induction i items rule: animate_items.induct) (simp_all add: reset_items_def)

lemma animate_reset_items: "animate_items i (reset_items items) = animate_items i items"
  by (induction i items rule: animate_items.induct) (simp_all add: reset_items_def)

lemma openMobileMenu_present:
  assumes "navMenu s \<noteq> None" "navToggle s \<noteq> None"
  shows "openMobileMenu s = Return (opened_page s)"
  using assms by (auto simp: openMobileMenu_def opened_page_def Let_def)

lemma closeMobileMenu_present:
  assumes "navMenu s \<noteq> None" "navToggle s \<noteq> None"
  shows "closeMobileMenu s = Return (closed_page s)"
  using assms by (auto simp: closeMobileMenu_def closed_page_def Let_def)

lemma opened_page_opened: "opened_page (opened_page s) = opened_page s"
  by (simp add: opened_page_def animate_items_idem)

lemma closed_page_closed: "closed_page (closed_page s) = closed_page s"
  by (simp add: closed_page_def reset_items_idem)

lemma closed_page_after_opened: "closed_page (opened_page s) = closed_page s"
  by (simp add: closed_page_def opened_page_def reset_animate_items)

lemma opened_page_after_closed: "opened_page (closed_page s) = opened_page s"
  by (simp add: closed_page_def opened_page_def animate_reset_items)

text \<open>
  C8: when the menu and its toggle exist, \<^verbatim>\<open>openMobileMenu\<close> and \<^verbatim>\<open>closeMobileMenu\<close> return,
  and on the whole page state (active markers, body overflow, the animation properties
  of every item) opening an open menu and closing a closed menu change nothing, closing
  after opening gives the closed state, and it gives back the state before the opening
  when that state was a closed one.
\<close>

theorem mobile_menu_idempotent:
  assumes "navMenu s \<noteq> None" and "navToggle s \<noteq> None"
  shows "\<exists>s_open s_closed.
           openMobileMenu s = Return s_open \<and> openMobileMenu s_open = Return s_open
         \<and> closeMobileMenu s = Return s_closed \<and> closeMobileMenu s_closed = Return s_closed
         \<and> closeMobileMenu s_open = Return s_closed
         \<and> openMobileMenu s_closed = Return s_open
         \<and> (closeMobileMenu s = Return s \<longrightarrow> closeMobileMenu s_open = Return s)"
proof -
  have o: "navMenu (opened_page s) \<noteq> None" "navToggle (opened_page s) \<noteq> None"
    by (simp_all add: opened_page_def)
  have c: "navMenu (closed_page s) \<noteq> None" "navToggle (closed_page s) \<noteq> None"
    by (simp_all add: closed_page_def)
  have "openMobileMenu s = Return (opened_page s)"
    using assms by (rule openMobileMenu_present)
  moreover have "openMobileMenu (opened_page s) = Return (opened_page s)"
    using openMobileMenu_present [OF o] by (simp add: opened_page_opened)
  moreover have cs: "closeMobileMenu s = Return (closed_page s)"
    using assms by (rule closeMobileMenu_present)
  moreover have "closeMobileMenu (closed_page s) = Return (closed_page s)"
    using closeMobileMenu_present [OF c] by (simp add: closed_page_closed)
  moreover have co: "closeMobileMenu (opened_page s) = Return (closed_page s)"
    using closeMobileMenu_present [OF o] by (simp add: closed_page_after_opened)
  moreover have "openMobileMenu (closed_page s) = Return (opened_page s)"
    using openMobileMenu_present [OF c] by (simp add: opened_page_after_closed)
  moreover have "closeMobileMenu s = Return s \<longrightarrow> closeMobileMenu (opened_page s) = Return s"
    using cs co by simp
  ultimately show ?thesis by blast
qed

theorem mobile_menu_idempotent_witness:
  "\<exists>s_open. openMobileMenu two_sections = Return s_open
      \<and> openMobileMenu s_open = Return s_open
      \<and> map style_animationDelay (navLinks s_open) = [Seconds 0, Seconds 0.1]
      \<and> navMenu s_open = Some True \<and> body_overflow s_open = ''hidden''
      \<and> closeMobileMenu two_sections = Return two_sections
      \<and> closeMobileMenu s_open = Return two_sections"
proof -
  have p: "navMenu two_sections \<noteq> None" "navToggle two_sections \<noteq> None"
    by (simp_all add: two_sections_def)
  have c: "closeMobileMenu two_sections = Return two_sections"
    by (simp add: closeMobileMenu_def two_sections_def reset_items_def plain_link_def)
  from mobile_menu_idempotent [OF p] c obtain s_open where
    o: "openMobileMenu two_sections = Return s_open" "openMobileMenu s_open = Return s_open"
       "closeMobileMenu s_open = Return two_sections"
    by auto
  have "openMobileMenu two_sections = Return (two_sections\<lparr>navMenu := Some True,
      navToggle := Some True, body_overflow := ''hidden'',
      navLinks := animate_items 0 (navLinks two_sections)\<rparr>)"
    by (simp add: openMobileMenu_def two_sections_def)
  with o(1) have "s_open = two_sections\<lparr>navMenu := Some True,
      navToggle := Some True, body_overflow := ''hidden'',
      navLinks := animate_items 0 (navLinks two_sections)\<rparr>"
    by simp
  then have "map style_animationDelay (navLinks s_open) = [Seconds 0, Seconds 0.1]"
    "navMenu s_open = Some True" "body_overflow s_open = ''hidden''"
    by (simp_all add: two_sections_def plain_link_def)
  with o c show ?thesis by (intro exI [where x = s_open]) simp
qed

subsection \<open>Facts about the active link\<close>

lemma remove_active_add_active:
  "remove_active (add_active h links) = remove_active links"
  by (induction links) (simp_all add: remove_active_def)

lemma remove_active_idem: "remove_active (remove_active links) = remove_active links"
  by (simp add: remove_active_def)

lemma remove_active_visit:
  "remove_active (visit_section y sec links) = remove_active links"
  by (simp add: visit_section_def remove_active_add_active remove_active_idem)

lemma remove_active_fold:
  "remove_active (fold (visit_section y) secs links) = remove_active links"
  by (induction secs arbitrary: links) (simp_all add: remove_active_visit)

lemma fold_visit_last_match:
  "fold (visit_section y) secs links =
     (if filter (section_matches y) secs = [] then links
      else add_active (''#'' @ section_id (last (filter (section_matches y) secs)))
             (remove_active links))"
proof (induction secs rule: rev_induct)
  case Nil
  show ?case by simp
next
  case (snoc sec secs)
  show ?case
  proof (cases "section_matches y sec")
    case True
    have "fold (visit_section y) (secs @ [sec]) links =
        add_active (''#'' @ section_id sec) (remove_active (fold (visit_section y) secs links))"
      using True by (simp add: visit_section_def)
    also have "\<dots> = add_active (''#'' @ section_id sec) (remove_active links)"
      by (simp add: remove_active_fold)
    finally show ?thesis
      using True by simp
  next
    case False
    then show ?thesis
      using snoc.IH by (simp add: visit_section_def)
  qed
qed

lemma active_count_remove_active: "active_count (remove_active links) = 0"
  by (induction links) (simp_all add: active_count_def remove_active_def)

lemma active_count_add_active:
  "active_count links = 0 \<Longrightarrow> active_count (add_active h links) \<le> 1"
  by (induction links) (auto simp: active_count_def split: if_splits)

lemma active_count_fold:
  assumes "active_count links \<le> 1"
  shows "active_count (fold (visit_section y) secs links) \<le> 1"
proof (cases "filter (section_matches y) secs = []")
  case True
  then show ?thesis using assms by (simp add: fold_visit_last_match)
next
  case False
  then show ?thesis
    using active_count_add_active [OF active_count_remove_active]
    by (simp add: fold_visit_last_match)
qed

lemma fold_visit_no_match:
  "\<forall>sec\<in>set secs. \<not> section_matches y sec \<Longrightarrow> fold (visit_section y) secs links = links"
  by (induction secs arbitrary: links) (simp_all add: visit_section_def)

text \<open>
  C5: \<^verbatim>\<open>updateActiveNavLink\<close> compares \<open>scrollY + 100\<close> with each section's
  \<open>[top, top + height)\<close>; when no section matches the links stay as they are, otherwise
  all links are cleared and the link of the last matching section (in document order) is
  marked. For A (top 0, height 500) and B (top 500, height 500) the update at
  \<open>scrollY = 450\<close> marks the link of B and at \<open>scrollY = 350\<close> the link of A.
\<close>

theorem active_link_last_match_wins:
  "navLinks (updateActiveNavLink s) =
     (if filter (section_matches (scrollY s + 100)) (sections s) = [] then navLinks s
      else add_active
             (''#'' @ section_id (last (filter (section_matches (scrollY s + 100)) (sections s))))
             (remove_active (navLinks s)))
   \<and> map link_active (navLinks (updateActiveNavLink (two_sections\<lparr>scrollY := 450\<rparr>)))
       = [False, True]
   \<and> map link_active (navLinks (updateActiveNavLink (two_sections\<lparr>scrollY := 350\<rparr>)))
       = [True, False]"
proof (intro conjI)
  show "navLinks (updateActiveNavLink s) =
     (if filter (section_matches (scrollY s + 100)) (sections s) = [] then navLinks s
      else add_active
             (''#'' @ section_id (last (filter (section_matches (scrollY s + 100)) (sections s))))
             (remove_active (navLinks s)))"
    by (simp add: updateActiveNavLink_def Let_def fold_visit_last_match)
  show "map link_active (navLinks (updateActiveNavLink (two_sections\<lparr>scrollY := 450\<rparr>)))
       = [False, True]"
    by (simp add: updateActiveNavLink_def Let_def two_sections_def visit_section_def
        section_matches_def remove_active_def plain_link_def)
  show "map link_active (navLinks (updateActiveNavLink (two_sections\<lparr>scrollY := 350\<rparr>)))
       = [True, False]"
    by (simp add: updateActiveNavLink_def Let_def two_sections_def visit_section_def
        section_matches_def remove_active_def plain_link_def)
qed

text \<open>
  C6: when at most one link is marked active, then after \<^verbatim>\<open>updateActiveNavLink\<close>, and
  after each step of its loop over the sections, at most one link is marked active.
\<close>

theorem at_most_one_active_link:
  assumes "active_count (navLinks s) \<le> 1"
  shows "active_count (navLinks (updateActiveNavLink s)) \<le> 1
    \<and> (\<forall>k. active_count (fold (visit_section (scrollY s + 100)) (take k (sections s))
               (navLinks s)) \<le> 1)"
proof -
  have "active_count (fold (visit_section (scrollY s + 100)) secs (navLinks s)) \<le> 1" for secs
    using assms by (rule active_count_fold)
  then show ?thesis
    by (simp add: updateActiveNavLink_def Let_def)
qed

theorem at_most_one_active_link_witness:
  "active_count (navLinks link_A_active) \<le> 1
   \<and> active_count (navLinks (updateActiveNavLink (link_A_active\<lparr>scrollY := 450\<rparr>))) \<le> 1
   \<and> map link_active (navLinks (updateActiveNavLink (link_A_active\<lparr>scrollY := 450\<rparr>)))
        = [False, True]"
proof -
  have a: "active_count (navLinks (link_A_active\<lparr>scrollY := 450\<rparr>)) \<le> 1"
    by (simp add: link_A_active_def two_sections_def plain_link_def active_count_def)
  have b: "map link_active (navLinks (updateActiveNavLink (link_A_active\<lparr>scrollY := 450\<rparr>)))
        = [False, True]"
    by (simp add: updateActiveNavLink_def Let_def link_A_active_def two_sections_def
        visit_section_def section_matches_def remove_active_def plain_link_def)
  from at_most_one_active_link [OF a] a b show ?thesis by simp
qed

text \<open>
  C10: when \<open>scrollY + 100\<close> lies in no section's \<open>[top, top + height)\<close>,
  \<^verbatim>\<open>updateActiveNavLink\<close> changes nothing: every link keeps its marker, also a link
  marked by an earlier update.
\<close>

theorem no_match_keeps_links:
  assumes "\<forall>sec\<in>set (sections s).
      \<not> (real_of_int (offsetTop sec) \<le> scrollY s + 100
         \<and> scrollY s + 100 < real_of_int (offsetTop sec + offsetHeight sec))"
  shows "updateActiveNavLink s = s"
proof -
  have "\<forall>sec\<in>set (sections s). \<not> section_matches (scrollY s + 100) sec"
    using assms by (simp add: section_matches_def)
  then show ?thesis
    by (simp add: updateActiveNavLink_def Let_def fold_visit_no_match)
qed

theorem no_match_keeps_links_witness:
  "updateActiveNavLink scrolled_past_B = scrolled_past_B
   \<and> map link_active (navLinks (updateActiveNavLink scrolled_past_B)) = [False, True]
   \<and> scrollY scrolled_past_B + 100 = 1050"
proof -
  have h: "\<forall>sec\<in>set (sections scrolled_past_B).
      \<not> (real_of_int (offsetTop sec) \<le> scrollY scrolled_past_B + 100
         \<and> scrollY scrolled_past_B + 100 < real_of_int (offsetTop sec + offsetHeight sec))"
    by (simp add: scrolled_past_B_def two_sections_def)
  have "map link_active (navLinks scrolled_past_B) = [False, True]"
    "scrollY scrolled_past_B + 100 = 1050"
    by (simp_all add: scrolled_past_B_def two_sections_def plain_link_def)
  with no_match_keeps_links [OF h] show ?thesis by simp
qed

section \<open>Scroll animations (\<^verbatim>\<open>class ScrollAnimations\<close>)\<close>

subsection \<open>Reveal on intersection\<close>



















subsection \<open>Parallax\<close>

text \<open>A JavaScript number that results from reading a string: a real number, or \<^verbatim>\<open>NaN\<close>
  for a string that is no number.\<close>

datatype js_number = Num real | NaN

definition js_times :: "real \<Rightarrow> js_number \<Rightarrow> js_number" where
  "js_times x y = (case y of Num v \<Rightarrow> Num (x * v) | NaN \<Rightarrow> NaN)"

definition js_negate :: "js_number \<Rightarrow> js_number" where
  "js_negate y = (case y of Num v \<Rightarrow> Num (- v) | NaN \<Rightarrow> NaN)"

text \<open>The value last assigned to \<^verbatim>\<open>style.transform\<close> of a \<^verbatim>\<open>.parallax\<close> element: some
  text, or the template \<^verbatim>\<open>`translateY(${yPos}px)`\<close> with its number.\<close>

datatype css_transform = TransformText string | TranslateY_px js_number

record parallax_element =
  data_speed :: "string option"
  parallax_transform :: css_transform

record parallax_page =
  parallax_scrollY :: real
  parallax_elements :: "parallax_element list"

text \<open>
  \<^verbatim>\<open>handleParallax() {
    const scrollY = window.scrollY;
    const parallaxElements = document.querySelectorAll('.parallax');
    parallaxElements.forEach(element => {
      const speed = element.getAttribute('data-speed') || 0.5;
      const yPos = -(scrollY * speed);
      element.style.transform = `translateY(${yPos}px)`; }); }\<close>
  \<^verbatim>\<open>speed\<close> is the attribute string unless that is \<^verbatim>\<open>null\<close> or empty; the product converts
  the string to a number, which is the parameter \<open>toNumber\<close> here.
\<close>

definition handleParallax :: "(string \<Rightarrow> js_number) \<Rightarrow> parallax_page \<Rightarrow> parallax_page" where
  "handleParallax toNumber s =
     (let scrollY = parallax_scrollY s
      in s\<lparr>parallax_elements :=
           map (\<lambda>element.
                  let speed = (case data_speed element of
                                 None \<Rightarrow> Num 0.5
                               | Some a \<Rightarrow> if a = [] then Num 0.5 else toNumber a);
                      yPos = js_negate (js_times scrollY speed)
                  in element\<lparr>parallax_transform := TranslateY_px yPos\<rparr>)
               (parallax_elements s)\<rparr>)"

text \<open>For the examples: a reading of the strings \<^verbatim>\<open>"0.5"\<close> and \<^verbatim>\<open>"0.2"\<close>, a hero page scrolled
  to 200 with one element without \<^verbatim>\<open>data-speed\<close> and one with \<^verbatim>\<open>data-speed="0.2"\<close>, and two
  reveal elements.\<close>

definition read_speed :: "string \<Rightarrow> js_number" where
  "read_speed a = (if a = ''0.5'' then Num 0.5 else if a = ''0.2'' then Num 0.2 else NaN)"

definition hero_page :: parallax_page where
  "hero_page = \<lparr>parallax_scrollY = 200, parallax_elements =
     [\<lparr>data_speed = None, parallax_transform = TransformText []\<rparr>,
      \<lparr>data_speed = Some ''0.2'', parallax_transform = TranslateY_px (Num (-7))\<rparr>]\<rparr>"





subsection \<open>Facts about the reveal animations\<close>



















subsection \<open>Facts about the parallax\<close>

lemma handleParallax_length:
  "length (parallax_elements (handleParallax toNumber s)) = length (parallax_elements s)"
  by (simp add: handleParallax_def Let_def)

lemma handleParallax_nth:
  assumes "i < length (parallax_elements s)"
  shows "parallax_elements (handleParallax toNumber s) ! i =
     (parallax_elements s ! i)\<lparr>parallax_transform :=
        TranslateY_px (js_negate (js_times (parallax_scrollY s)
          (case data_speed (parallax_elements s ! i) of
             None \<Rightarrow> Num 0.5
           | Some a \<Rightarrow> if a = [] then Num 0.5 else toNumber a)))\<rparr>"
  using assms by (simp add: handleParallax_def Let_def)

lemma handleParallax_history:
  fixes s s' :: parallax_page
  assumes "parallax_scrollY s' = parallax_scrollY s"
    and "map data_speed (parallax_elements s') = map data_speed (parallax_elements s)"
  shows "map parallax_transform (parallax_elements (handleParallax toNumber s'))
       = map parallax_transform (parallax_elements (handleParallax toNumber s))"
proof -
  have "map (\<lambda>e. f (data_speed e)) (parallax_elements s')
      = map (\<lambda>e. f (data_speed e)) (parallax_elements s)" for f :: "string option \<Rightarrow> css_transform"
  proof -
    have split_map: "map (\<lambda>e. f (data_speed e)) es = map f (map data_speed es)"
      for es :: "parallax_element list"
      by simp
    show ?thesis by (simp only: split_map assms(2))
  qed
  from this [of "\<lambda>a. TranslateY_px (js_negate (js_times (parallax_scrollY s)
          (case a of None \<Rightarrow> Num 0.5 | Some a \<Rightarrow> if a = [] then Num 0.5 else toNumber a)))"]
  show ?thesis
    using assms(1) by (simp add: handleParallax_def Let_def o_def)
qed

text \<open>
  C7: \<^verbatim>\<open>handleParallax\<close> assigns to every \<^verbatim>\<open>.parallax\<close> element the offset
  \<open>- (scrollY * speed)\<close>, where \<open>speed\<close> is 0.5 when \<^verbatim>\<open>data-speed\<close> is absent (or empty) and
  the number read from the attribute otherwise; the offset is the same for any other state
  of the page with the same scroll position and the same attributes, whatever the
  elements' transforms were before; and at \<open>scrollY = 200\<close> with the default speed it is
  \<open>-100\<close>.
\<close>

theorem parallax_offset_pure:
  fixes s s' :: parallax_page
  assumes "i < length (parallax_elements s)"
    and "parallax_scrollY s' = parallax_scrollY s"
    and "map data_speed (parallax_elements s') = map data_speed (parallax_elements s)"
  shows "parallax_transform (parallax_elements (handleParallax toNumber s) ! i) =
      TranslateY_px
        (case data_speed (parallax_elements s ! i) of
           None \<Rightarrow> Num (- (parallax_scrollY s * 0.5))
         | Some a \<Rightarrow>
             if a = [] then Num (- (parallax_scrollY s * 0.5))
             else (case toNumber a of
                     Num speed \<Rightarrow> Num (- (parallax_scrollY s * speed))
                   | NaN \<Rightarrow> NaN))
    \<and> parallax_transform (parallax_elements (handleParallax toNumber s') ! i)
        = parallax_transform (parallax_elements (handleParallax toNumber s) ! i)
    \<and> (parallax_scrollY s = 200 \<and> data_speed (parallax_elements s ! i) = None \<longrightarrow>
         parallax_transform (parallax_elements (handleParallax toNumber s) ! i)
           = TranslateY_px (Num (- 100)))"
proof (intro conjI impI)
  show first: "parallax_transform (parallax_elements (handleParallax toNumber s) ! i) =
      TranslateY_px
        (case data_speed (parallax_elements s ! i) of
           None \<Rightarrow> Num (- (parallax_scrollY s * 0.5))
         | Some a \<Rightarrow>
             if a = [] then Num (- (parallax_scrollY s * 0.5))
             else (case toNumber a of
                     Num speed \<Rightarrow> Num (- (parallax_scrollY s * speed))
                   | NaN \<Rightarrow> NaN))"
    using assms(1)
    by (simp add: handleParallax_nth js_times_def js_negate_def
        split: option.splits js_number.splits)
  have "map parallax_transform (parallax_elements (handleParallax toNumber s'))
      = map parallax_transform (parallax_elements (handleParallax toNumber s))"
    using assms(2,3) by (rule handleParallax_history)
  moreover have "i < length (parallax_elements (handleParallax toNumber s))"
    "i < length (parallax_elements (handleParallax toNumber s'))"
    using assms(1) length_map [of data_speed "parallax_elements s'"] assms(3)
    by (simp_all add: handleParallax_length)
  ultimately show "parallax_transform (parallax_elements (handleParallax toNumber s') ! i)
        = parallax_transform (parallax_elements (handleParallax toNumber s) ! i)"
    by (metis nth_map)
  assume "parallax_scrollY s = 200 \<and> data_speed (parallax_elements s ! i) = None"
  then show "parallax_transform (parallax_elements (handleParallax toNumber s) ! i)
           = TranslateY_px (Num (- 100))"
    using first by simp
qed

theorem parallax_offset_pure_witness:
  "parallax_transform (parallax_elements (handleParallax read_speed hero_page) ! 0)
     = TranslateY_px (Num (- 100))
   \<and> parallax_transform (parallax_elements (handleParallax read_speed hero_page) ! 1)
     = TranslateY_px (Num (- 40))
   \<and> parallax_transform
        (parallax_elements (handleParallax read_speed (handleParallax read_speed hero_page)) ! 1)
     = TranslateY_px (Num (- 40))
   \<and> parallax_transform (parallax_elements hero_page ! 1) = TranslateY_px (Num (- 7))"
proof -
  let ?s = "handleParallax read_speed hero_page"
  have h0: "0 < length (parallax_elements hero_page)"
    and h1: "1 < length (parallax_elements hero_page)"
    by (simp_all add: hero_page_def)
  have y: "parallax_scrollY ?s = parallax_scrollY hero_page"
    and sp: "map data_speed (parallax_elements ?s) = map data_speed (parallax_elements hero_page)"
    by (simp_all add: handleParallax_def Let_def o_def)
  have facts: "parallax_scrollY hero_page = 200"
    "data_speed (parallax_elements hero_page ! 0) = None"
    "data_speed (parallax_elements hero_page ! 1) = Some ''0.2''"
    "read_speed ''0.2'' = Num 0.2"
    "parallax_transform (parallax_elements hero_page ! 1) = TranslateY_px (Num (- 7))"
    by (simp_all add: hero_page_def read_speed_def)
  from parallax_offset_pure [OF h0 y sp, of read_speed]
       parallax_offset_pure [OF h1 y sp, of read_speed] facts
  show ?thesis by simp
qed

section \<open>Buttons (\<^verbatim>\<open>class InteractiveComponents\<close>)\<close>

text \<open>
  The child nodes of a button: text, an \<^verbatim>\<open><i>\<close> icon with its class, or a ripple
  \<^verbatim>\<open><span>\<close> with the size and position written into its style. A span made by
  \<^verbatim>\<open>document.createElement\<close> carries the number of that call, which is how the timer that
  removes it refers to it; a span that came out of parsing markup carries none. Markup (the
  value of \<^verbatim>\<open>innerHTML\<close>) is modelled by the nodes it describes, without identities.
\<close>

datatype node = Text string | Icon string | RippleSpan "nat option" real real real

type_synonym markup = "node list"

text \<open>The two click listeners that \<^verbatim>\<open>setupButtonInteractions\<close> can add to a button.\<close>

datatype listener = RippleListener | LoadingListener

text \<open>A \<^verbatim>\<open>.btn\<close> element: whether it has the class \<^verbatim>\<open>pricing-btn\<close>, its child nodes, its
  \<^verbatim>\<open>disabled\<close> property, the values last assigned to three inline styles, its bounding
  rectangle and its click listeners in the order of registration.\<close>

record button =
  pricing_btn :: bool
  content :: "node list"
  disabled :: bool
  style_background :: string
  style_position :: string
  style_overflow :: string
  rect_left :: real
  rect_top :: real
  rect_width :: real
  rect_height :: real
  click_listeners :: "listener list"

record mouse_event =
  clientX :: real
  clientY :: real

text \<open>The callbacks given to \<^verbatim>\<open>setTimeout\<close> by \<^verbatim>\<open>createRippleEffect\<close> and (two, nested) by
  \<^verbatim>\<open>showLoadingState\<close>, with what they captured.\<close>

datatype timer_action = RemoveRipple nat | ShowSuccess markup | RestoreButton markup

text \<open>A button together with the clock in milliseconds, the pending timers (due time and
  callback, in the order of registration) and the number of spans created so far.\<close>

record button_state =
  btn :: button
  clock :: nat
  pending :: "(nat \<times> timer_action) list"
  spans_created :: nat

definition setTimeout :: "timer_action \<Rightarrow> nat \<Rightarrow> button_state \<Rightarrow> button_state" where
  "setTimeout action delay s = s\<lparr>pending := pending s @ [(clock s + delay, action)]\<rparr>"

text \<open>\<^verbatim>\<open>button.textContent\<close> and the getter of \<^verbatim>\<open>button.innerHTML\<close>.\<close>

fun node_text :: "node \<Rightarrow> string" where
  "node_text (Text t) = t"
| "node_text (Icon c) = []"
| "node_text (RippleSpan k d x y) = []"

definition textContent :: "button \<Rightarrow> string" where
  "textContent b = concat (map node_text (content b))"

fun serialize :: "node \<Rightarrow> node" where
  "serialize (RippleSpan k d x y) = RippleSpan None d x y"
| "serialize n = n"

definition innerHTML :: "button \<Rightarrow> markup" where
  "innerHTML b = map serialize (content b)"

text \<open>\<^verbatim>\<open>String.prototype.includes\<close>.\<close>

fun string_includes :: "string \<Rightarrow> string \<Rightarrow> bool" where
  "string_includes [] sub = (sub = [])"
| "string_includes (c # cs) sub = (take (length sub) (c # cs) = sub \<or> string_includes cs sub)"

text \<open>
  \<^verbatim>\<open>setupButtonInteractions\<close> for one button: the ripple listener first, then the loading
  listener \<^verbatim>\<open>if (button.classList.contains('pricing-btn') ||
  button.textContent.includes('Demo'))\<close>.
\<close>

definition setupButtonInteractions :: "button \<Rightarrow> button" where
  "setupButtonInteractions b =
     (let b1 = b\<lparr>click_listeners := click_listeners b @ [RippleListener]\<rparr>
      in if pricing_btn b1 \<or> string_includes (textContent b1) ''Demo''
         then b1\<lparr>click_listeners := click_listeners b1 @ [LoadingListener]\<rparr>
         else b1)"

text \<open>
  \<^verbatim>\<open>createRippleEffect(e, button)\<close>: a new span sized \<^verbatim>\<open>Math.max(rect.width, rect.height)\<close>
  at \<^verbatim>\<open>e.clientX - rect.left - size / 2\<close>, \<^verbatim>\<open>e.clientY - rect.top - size / 2\<close> is appended
  to the button, and \<^verbatim>\<open>setTimeout(() => { ripple.remove(); }, 600)\<close>.
\<close>

definition createRippleEffect :: "mouse_event \<Rightarrow> button_state \<Rightarrow> button_state" where
  "createRippleEffect e s =
     (let button = btn s;
          size = max (rect_width button) (rect_height button);
          x = clientX e - rect_left button - size / 2;
          y = clientY e - rect_top button - size / 2;
          k = spans_created s;
          ripple = RippleSpan (Some k) size x y;
          button1 = button\<lparr>style_position := ''relative'', style_overflow := ''hidden'',
                           content := content button @ [ripple]\<rparr>
      in setTimeout (RemoveRipple k) 600 (s\<lparr>btn := button1, spans_created := Suc k\<rparr>))"

fun is_span :: "nat \<Rightarrow> node \<Rightarrow> bool" where
  "is_span k (RippleSpan j d x y) = (j = Some k)"
| "is_span k n = False"

text \<open>
  \<^verbatim>\<open>showLoadingState(button) {
    const originalText = button.innerHTML;
    button.innerHTML = '<i class="fas fa-spinner fa-spin"></i> Processing...';
    button.disabled = true;
    setTimeout(() => { ... }, 2000); }\<close>
\<close>

definition showLoadingState :: "button_state \<Rightarrow> button_state" where
  "showLoadingState s =
     (let originalText = innerHTML (btn s);
          button1 = (btn s)\<lparr>content := [Icon ''fas fa-spinner fa-spin'', Text '' Processing...''],
                            disabled := True\<rparr>
      in setTimeout (ShowSuccess originalText) 2000 (s\<lparr>btn := button1\<rparr>))"

text \<open>The timer callbacks: \<^verbatim>\<open>ripple.remove()\<close>; the outer callback of \<^verbatim>\<open>showLoadingState\<close>
  (\<^verbatim>\<open>button.innerHTML = '<i class="fas fa-check"></i> Success!'; button.style.background =
  'var(--color-accent)'; setTimeout(..., 2000)\<close>); and its inner callback
  (\<^verbatim>\<open>button.innerHTML = originalText; button.disabled = false; button.style.background =
  ''\<close>).\<close>

fun run_action :: "timer_action \<Rightarrow> button_state \<Rightarrow> button_state" where
  "run_action (RemoveRipple k) s =
     s\<lparr>btn := (btn s)\<lparr>content := filter (\<lambda>n. \<not> is_span k n) (content (btn s))\<rparr>\<rparr>"
| "run_action (ShowSuccess originalText) s =
     setTimeout (RestoreButton originalText) 2000
       (s\<lparr>btn := (btn s)\<lparr>content := [Icon ''fas fa-check'', Text '' Success!''],
                           style_background := ''var(--color-accent)''\<rparr>\<rparr>)"
| "run_action (RestoreButton originalText) s =
     s\<lparr>btn := (btn s)\<lparr>content := originalText, disabled := False,
                        style_background := []\<rparr>\<rparr>"

fun run_listener :: "mouse_event \<Rightarrow> listener \<Rightarrow> button_state \<Rightarrow> button_state" where
  "run_listener e RippleListener s = createRippleEffect e s"
| "run_listener e LoadingListener s = showLoadingState s"

text \<open>A click on the button: a disabled button receives no click event; otherwise the
  listeners run in the order of their registration.\<close>

definition click :: "mouse_event \<Rightarrow> button_state \<Rightarrow> button_state" where
  "click e s =
     (if disabled (btn s) then s else fold (run_listener e) (click_listeners (btn s)) s)"

text \<open>The pending timer that is due first (the one registered first among equals).\<close>

fun earliest :: "(nat \<times> timer_action) list \<Rightarrow> (nat \<times> timer_action) option" where
  "earliest [] = None"
| "earliest (t # ts) =
     (case earliest ts of
        None \<Rightarrow> Some t
      | Some u \<Rightarrow> if fst u < fst t then Some u else Some t)"

text \<open>Time passes until the next pending timer is due, and its callback runs.\<close>

definition next_timer :: "button_state \<Rightarrow> button_state" where
  "next_timer s =
     (case earliest (pending s) of
        None \<Rightarrow> s
      | Some t \<Rightarrow> run_action (snd t) (s\<lparr>clock := fst t, pending := remove1 t (pending s)\<rparr>))"

text \<open>For the examples: a button \<^verbatim>\<open><button class="btn">Book a Demo</button>\<close> of 120 by 40
  pixels at the origin, after \<^verbatim>\<open>setupButtonInteractions\<close>, and a click at (10, 10).\<close>

definition demo_button :: button_state where
  "demo_button =
     \<lparr>btn = setupButtonInteractions
        \<lparr>pricing_btn = False, content = [Text ''Book a Demo''], disabled = False,
         style_background = [], style_position = [], style_overflow = [],
         rect_left = 0, rect_top = 0, rect_width = 120, rect_height = 40,
         click_listeners = []\<rparr>,
      clock = 0, pending = [], spans_created = 0\<rparr>"

definition demo_click :: mouse_event where
  "demo_click = \<lparr>clientX = 10, clientY = 10\<rparr>"

subsection \<open>Facts about the loading sequence\<close>

lemma serialize_idem: "serialize (serialize n) = serialize n"
  by (cases n) simp_all

text \<open>A click on an enabled button that has both listeners and no timer pending: the
  ripple listener runs first, so the markup that \<^verbatim>\<open>showLoadingState\<close> captures already holds
  the ripple span.\<close>

lemma click_with_both_listeners:
  assumes "\<not> disabled (btn s)" and "click_listeners (btn s) = [RippleListener, LoadingListener]"
    and "pending s = []"
  shows "click e s =
     s\<lparr>btn := (btn s)\<lparr>style_position := ''relative'', style_overflow := ''hidden'',
                       content := [Icon ''fas fa-spinner fa-spin'', Text '' Processing...''],
                       disabled := True\<rparr>,
        spans_created := Suc (spans_created s),
        pending := [(clock s + 600, RemoveRipple (spans_created s)),
                    (clock s + 2000, ShowSuccess (innerHTML (btn s) @
                       [RippleSpan None (max (rect_width (btn s)) (rect_height (btn s)))
                          (clientX e - rect_left (btn s)
                             - max (rect_width (btn s)) (rect_height (btn s)) / 2)
                          (clientY e - rect_top (btn s)
                             - max (rect_width (btn s)) (rect_height (btn s)) / 2)]))]\<rparr>"
  using assms
  by (simp add: click_def createRippleEffect_def showLoadingState_def setTimeout_def
      innerHTML_def Let_def)

text \<open>The three stages after such a click: at once the placeholder and the disabled
  control; at 2000 ms the success label and the accent colour; at 4000 ms the control is
  enabled again, the colour override is cleared and the content is the captured markup,
  which is the content before the click followed by a ripple span.\<close>

lemma loading_sequence:
  assumes "\<not> disabled (btn s)" and "click_listeners (btn s) = [RippleListener, LoadingListener]"
    and "pending s = []"
  shows "content (btn (click e s)) = [Icon ''fas fa-spinner fa-spin'', Text '' Processing...'']"
    and "disabled (btn (click e s))"
    and "content (btn (next_timer (next_timer (click e s))))
           = [Icon ''fas fa-check'', Text '' Success!'']"
    and "style_background (btn (next_timer (next_timer (click e s)))) = ''var(--color-accent)''"
    and "clock (next_timer (next_timer (click e s))) = clock s + 2000"
    and "content (btn (next_timer (next_timer (next_timer (click e s)))))
           = innerHTML (btn s) @
               [RippleSpan None (max (rect_width (btn s)) (rect_height (btn s)))
                  (clientX e - rect_left (btn s)
                     - max (rect_width (btn s)) (rect_height (btn s)) / 2)
                  (clientY e - rect_top (btn s)
                     - max (rect_width (btn s)) (rect_height (btn s)) / 2)]"
    and "\<not> disabled (btn (next_timer (next_timer (next_timer (click e s)))))"
    and "style_background (btn (next_timer (next_timer (next_timer (click e s))))) = []"
    and "clock (next_timer (next_timer (next_timer (click e s)))) = clock s + 4000"
    and "pending (next_timer (next_timer (next_timer (click e s)))) = []"
  by (simp_all add: click_with_both_listeners [OF assms] next_timer_def setTimeout_def)

text \<open>Without the ripple listener the sequence gives back the markup the button had.\<close>

lemma loading_alone_restores:
  assumes "\<not> disabled (btn s)" and "click_listeners (btn s) = [LoadingListener]"
    and "pending s = []"
  shows "innerHTML (btn (next_timer (next_timer (click e s)))) = innerHTML (btn s)"
    and "\<not> disabled (btn (next_timer (next_timer (click e s))))"
    and "style_background (btn (next_timer (next_timer (click e s)))) = []"
  using assms
  by (simp_all add: click_def showLoadingState_def setTimeout_def next_timer_def
      innerHTML_def serialize_idem)

text \<open>
  C9: after the three stages the content of the button is claimed to be exactly its
  content at the time of the click. \<^verbatim>\<open>setupButtonInteractions\<close> registers the ripple listener
  before the loading listener, so on a click \<^verbatim>\<open>createRippleEffect\<close> has appended its span
  when \<^verbatim>\<open>showLoadingState\<close> reads \<^verbatim>\<open>innerHTML\<close>; the timer at 600 ms removes the created
  span, which the placeholder has already replaced, and the restore at 4000 ms writes the
  markup with the span back. The button \<^verbatim>\<open>Book a Demo\<close>, clicked once at (10, 10), ends
  with a ripple span after its label and no timer left to remove it.
\<close>

theorem loading_restore_keeps_ripple_span:
  "content (btn demo_button) = [Text ''Book a Demo'']
   \<and> content (btn (next_timer (next_timer (next_timer (click demo_click demo_button)))))
       = [Text ''Book a Demo'', RippleSpan None 120 (- 50) (- 50)]
   \<and> pending (next_timer (next_timer (next_timer (click demo_click demo_button)))) = []
   \<and> clock (next_timer (next_timer (next_timer (click demo_click demo_button)))) = 4000"
  by code_simp

end
